theory Spec2Isabelle
  imports Main
begin

section \<open>CLI\_SHELL: a shallow embedding of CLI\_SHELL.c\<close>

text \<open>
  The shell receives one line from the transport (\<open>rxShellInput\<close>), and the main loop
  polls it (\<open>checkShellStatus\<close>): the line is scrubbed of white space, split into a
  command and its arguments, matched against the command table, validated and run.

  Bytes are \<open>char\<close> (256 values), a C string is the list of its bytes before the
  terminating 0, a fixed-size array is a list of that length. \<open>uint8_t\<close> and
  \<open>int8_t\<close> values are \<open>nat\<close> and \<open>int\<close> with the conversion written out where
  the source converts.
\<close>

subsection \<open>Constants of CLI\_SHELL.h\<close>

definition MAX_ARGUMENTS :: nat where
  "MAX_ARGUMENTS = 5"

definition SHELL_BUFFER_LEN :: nat where
  "SHELL_BUFFER_LEN = 100"

definition SHELL_CMD_LEN :: nat where
  "SHELL_CMD_LEN = SHELL_BUFFER_LEN"

definition SHELL_ARG_LEN :: nat where
  "SHELL_ARG_LEN = 20"

definition NUL :: char where
  "NUL = CHR 0x00"

definition SP :: char where
  "SP = CHR '' ''"

definition CR :: char where
  "CR = CHR 0x0D"

definition LF :: char where
  "LF = CHR 0x0A"

subsection \<open>Types of CLI\_SHELL.h\<close>

text \<open>
  \<open>argToken_t\<close> is the enum \<open>argTkn_a = 0, ..., argTkn_z = 25, argTkn_err = 26\<close>; the
  source casts a number to it, so it is kept as its number.
\<close>

type_synonym argToken_t = nat

definition argTkn_a :: argToken_t where
  "argTkn_a = 0"

definition argTkn_b :: argToken_t where
  "argTkn_b = 1"

definition argTkn_err :: argToken_t where
  "argTkn_err = 26"

datatype argType_t = arg_uint8 | arg_uint16 | arg_uint32 | arg_char | arg_string | arg_float | arg_flag

datatype responseCode_t = RESPONSE_OK | RESPONSE_FNC_ERR | RESPONSE_CMD_ERR | RESPONSE_ARG_ERR

datatype shell_error = SHELL_OK | SHELL_ERR

text \<open>
  One parsed argument. \<open>argContents\<close> is the C string held by the 20-byte array;
  \<open>argContLen\<close> is assigned by \<open>extractArguments\<close>.
\<close>

record shellArgument_t =
  argContents :: string
  argContLen :: nat
  argToken :: argToken_t

text \<open>
  The parser output is a local of \<open>shellProcessCommand\<close> that nothing initialises: a
  slot of \<open>cmdArgs\<close> is \<open>None\<close> until \<open>extractArguments\<close> writes it.
\<close>

record shellParserOutput_t =
  cmdName :: string
  numArgs :: nat
  cmdArgs :: "shellArgument_t option list"

record shellArgTemplate_t =
  mandatory :: bool
  argtype :: argType_t
  token :: argToken_t

text \<open>
  A command of the table. The fields \<open>cmdName\<close> and \<open>numArgs\<close> of the C struct are
  \<open>tcmdName\<close> and \<open>tnumArgs\<close> here (the parser output has fields of the same names).
  The header names the function pointer \<open>bridge\<close>; the table and
  \<open>shellProcessCommand\<close> use \<open>runner\<close>. The runner receives the parser output; what
  it sends to the output channel is appended to the list of transmissions, and it
  returns its \<open>shell_error\<close>.
\<close>

record shellCmdTemplate_t =
  tcmdName :: string
  helpDesc :: string
  runner :: "shellParserOutput_t \<Rightarrow> string list \<Rightarrow> shell_error \<times> string list"
  tnumArgs :: nat
  cmdArgsTable :: "shellArgTemplate_t list"

record shellBufferHandle_t =
  rxFlag :: bool
  rxBuffer :: "char list"
  rxLen :: nat

text \<open>
  What the shell does to the outside: \<open>sink\<close> is the sequence of buffers handed to
  \<open>outputStreamChannel\<close>, \<open>invoked\<close> the table indices of the runners called, in order.
\<close>

record world =
  sink :: "string list"
  invoked :: "nat list"

text \<open>
  Undefined behaviour of the C program is a value of its own, never a result the program
  returns: \<open>OutOfBounds a i\<close> is an access to element \<open>i\<close> of the array \<open>a\<close> that
  has no such element, \<open>NullString\<close> is a null pointer given to \<open>sprintf\<close>'s \<open>%s\<close>,
  \<open>Uninitialised\<close> a read of a parser-output slot never written.
\<close>

datatype fault = OutOfBounds string nat | NullString | Uninitialised

subsection \<open>Array accesses and the C library\<close>

definition rd :: "char list \<Rightarrow> nat \<Rightarrow> fault + char" where
  "rd buf i = (if i < length buf then Inr (buf ! i) else Inl (OutOfBounds ''rxBuffer'' i))"

definition wr :: "char list \<Rightarrow> nat \<Rightarrow> char \<Rightarrow> fault + char list" where
  "wr buf i c = (if i < length buf then Inr (buf[i := c]) else Inl (OutOfBounds ''rxBuffer'' i))"

text \<open>Conversion to \<open>uint8_t\<close> and to \<open>int8_t\<close> (two's complement).\<close>

definition to_uint8 :: "int \<Rightarrow> nat" where
  "to_uint8 x = nat (x mod 256)"

definition to_int8 :: "int \<Rightarrow> int" where
  "to_int8 x = (x + 128) mod 256 - 128"

text \<open>
  \<open>memcpy(dst, src, n)\<close>: the first \<open>n\<close> bytes of \<open>dst\<close> become those of \<open>src\<close>. It
  copies upwards, so the first element missing from either array is the fault.
\<close>

definition memcpy :: "string \<Rightarrow> char list \<Rightarrow> string \<Rightarrow> char list \<Rightarrow> nat \<Rightarrow> fault + char list" where
  "memcpy dname dst sname src n =
     (if n \<le> length dst \<and> n \<le> length src then Inr (take n src @ drop n dst)
      else if length dst \<le> length src then Inl (OutOfBounds dname (length dst))
      else Inl (OutOfBounds sname (length src)))"

text \<open>
  \<open>strtok\<close> with the delimiter \<open>" "\<close>. Its argument here is the part of the array
  from the position \<open>strtok\<close> keeps between calls to the end of the array. It skips
  spaces; at a 0 it returns NULL (\<open>None\<close>); else the token runs up to the next space
  or 0, a space is overwritten with 0 and the next call starts after it. It returns
  the token and the part of the array the next call starts from. A scan that finds no
  0 and no token end leaves the array.
\<close>

definition strtok :: "string \<Rightarrow> char list \<Rightarrow> fault + (string option \<times> char list)" where
  "strtok aname arr =
     (let s1 = dropWhile (\<lambda>c. c = SP) arr in
      case s1 of
        [] \<Rightarrow> Inl (OutOfBounds aname SHELL_CMD_LEN)
      | c # cs \<Rightarrow>
          if c = NUL then Inr (None, s1)
          else
            (let tok = takeWhile (\<lambda>c. c \<noteq> SP \<and> c \<noteq> NUL) s1;
                 r = dropWhile (\<lambda>c. c \<noteq> SP \<and> c \<noteq> NUL) s1
             in case r of
                  [] \<Rightarrow> Inl (OutOfBounds aname SHELL_CMD_LEN)
                | d # ds \<Rightarrow> if d = NUL then Inr (Some tok, r) else Inr (Some tok, ds)))"

text \<open>\<open>strcmp\<close>: only the sign of the result is specified.\<close>

fun strcmp :: "string \<Rightarrow> string \<Rightarrow> int" where
  "strcmp [] [] = 0"
| "strcmp [] (b # bs) = - 1"
| "strcmp (a # as) [] = 1"
| "strcmp (a # as) (b # bs) =
     (if a = b then strcmp as bs
      else if (of_char a :: nat) < of_char b then - 1 else 1)"

text \<open>
  \<open>strtol(s, NULL, 10)\<close>: white space, an optional sign, then decimal digits; 0 when
  there is no digit; the value saturates at \<open>LONG_MIN\<close> and \<open>LONG_MAX\<close>. \<open>long\<close> has
  32 bits on the target (an STM32 with a USB CDC interface).
\<close>

definition LONG_MAX :: int where
  "LONG_MAX = 2147483647"

definition LONG_MIN :: int where
  "LONG_MIN = - 2147483648"

definition isspace :: "char \<Rightarrow> bool" where
  "isspace c = (c = SP \<or> (9 \<le> (of_char c :: nat) \<and> (of_char c :: nat) \<le> 13))"

definition isdigit :: "char \<Rightarrow> bool" where
  "isdigit c = (48 \<le> (of_char c :: nat) \<and> (of_char c :: nat) \<le> 57)"

fun digits :: "int \<Rightarrow> string \<Rightarrow> int" where
  "digits acc [] = acc"
| "digits acc (c # cs) =
     (if isdigit c then digits (acc * 10 + (of_char c - 48)) cs else acc)"

definition strtol :: "string \<Rightarrow> int" where
  "strtol s =
     (let s1 = dropWhile isspace s in
      case s1 of
        [] \<Rightarrow> 0
      | c # cs \<Rightarrow>
          if c = CHR ''-'' then max LONG_MIN (- digits 0 cs)
          else if c = CHR ''+'' then min LONG_MAX (digits 0 cs)
          else min LONG_MAX (digits 0 s1))"

subsection \<open>scrubWhiteSpace\<close>

text \<open>
  The two inner loops \<open>for (i = from; i < bound; i++) rxBuffer[i] = rxBuffer[i + 1]\<close>.
  The bound is \<open>currentLength - 1\<close> or \<open>currentLength - 2\<close>, computed in \<open>int\<close>, so it
  can be negative; the counter stays below 255.
\<close>

function shiftLoop :: "char list \<Rightarrow> nat \<Rightarrow> int \<Rightarrow> fault + char list" where
  "shiftLoop buf i bound =
     (if int i < bound then
        (case rd buf (i + 1) of
           Inl e \<Rightarrow> Inl e
         | Inr c \<Rightarrow>
            (case wr buf i c of
               Inl e \<Rightarrow> Inl e
             | Inr buf' \<Rightarrow> shiftLoop buf' (i + 1) bound))
      else Inr buf)"
  by pat_completeness auto
termination
  by (relation "measure (\<lambda>(buf, i, bound). nat (bound - int i))") auto

text \<open>
  \<open>while (rxBuffer[0] == ' ' && currentLength > 0)\<close>: the byte is read before the
  length is tested.
\<close>

function scrubLeading :: "char list \<Rightarrow> nat \<Rightarrow> fault + (char list \<times> nat)" where
  "scrubLeading buf currentLength =
     (case rd buf 0 of
        Inl e \<Rightarrow> Inl e
      | Inr c \<Rightarrow>
          if c = SP \<and> currentLength > 0 then
            (case shiftLoop buf 0 (int currentLength - 1) of
               Inl e \<Rightarrow> Inl e
             | Inr buf' \<Rightarrow> scrubLeading buf' (currentLength - 1))
          else Inr (buf, currentLength))"
  by pat_completeness auto
termination
  by (relation "measure (\<lambda>(buf, currentLength). currentLength)") auto

text \<open>
  \<open>while (rxBuffer[lastIndex] == ' ' && currentLength > 0)\<close>, with
  \<open>lastIndex = currentLength - 1\<close> stored in a \<open>uint8_t\<close>.
\<close>

function scrubTrailing :: "char list \<Rightarrow> nat \<Rightarrow> nat \<Rightarrow> fault + nat" where
  "scrubTrailing buf lastIndex currentLength =
     (case rd buf lastIndex of
        Inl e \<Rightarrow> Inl e
      | Inr c \<Rightarrow>
          if c = SP \<and> currentLength > 0 then
            scrubTrailing buf (to_uint8 (int (currentLength - 1) - 1)) (currentLength - 1)
          else Inr currentLength)"
  by pat_completeness auto
termination
  by (relation "measure (\<lambda>(buf, lastIndex, currentLength). currentLength)") auto

text \<open>
  \<open>for (i = 0; i < currentLength; i++)\<close>: at two spaces the rest is shifted (up to
  \<open>currentLength - 2\<close>) and the length decremented; \<open>&&\<close> reads \<open>rxBuffer[i + 1]\<close>
  only after a space at \<open>i\<close>.
\<close>

function scrubDuplicate :: "char list \<Rightarrow> nat \<Rightarrow> nat \<Rightarrow> fault + (char list \<times> nat)" where
  "scrubDuplicate buf i currentLength =
     (if i < currentLength then
        (case rd buf i of
           Inl e \<Rightarrow> Inl e
         | Inr c \<Rightarrow>
             if c = SP then
               (case rd buf (i + 1) of
                  Inl e \<Rightarrow> Inl e
                | Inr d \<Rightarrow>
                    if d = SP then
                      (case shiftLoop buf (i + 1) (int currentLength - 2) of
                         Inl e \<Rightarrow> Inl e
                       | Inr buf' \<Rightarrow> scrubDuplicate buf' (i + 1) (currentLength - 1))
                    else scrubDuplicate buf (i + 1) currentLength)
             else scrubDuplicate buf (i + 1) currentLength)
      else Inr (buf, currentLength))"
  by pat_completeness auto
termination
  by (relation "measure (\<lambda>(buf, i, currentLength). currentLength - i)") auto

definition scrubWhiteSpace :: "shellBufferHandle_t \<Rightarrow> fault + (shell_error \<times> shellBufferHandle_t)" where
  "scrubWhiteSpace s =
     (case scrubLeading (rxBuffer s) (to_uint8 (int (rxLen s))) of
        Inl e \<Rightarrow> Inl e
      | Inr (buf1, len1) \<Rightarrow>
         (case scrubTrailing buf1 (to_uint8 (int len1 - 1)) len1 of
            Inl e \<Rightarrow> Inl e
          | Inr len2 \<Rightarrow>
             (case scrubDuplicate buf1 0 len2 of
                Inl e \<Rightarrow> Inl e
              | Inr (buf3, len3) \<Rightarrow> Inr (SHELL_OK, s\<lparr>rxBuffer := buf3, rxLen := len3\<rparr>))))"

subsection \<open>The parser\<close>

definition getTokenFromChar :: "char \<Rightarrow> argToken_t" where
  "getTokenFromChar chrToken =
     (let asciiVal = (of_char chrToken :: nat) in
      if asciiVal \<ge> 97 \<and> asciiVal \<le> 122 then asciiVal - 97 else argTkn_err)"

text \<open>
  \<open>bufferCopy\<close>: \<open>SHELL_CMD_LEN\<close> bytes, all 0, then the first \<open>rxLen\<close> bytes of the
  receive buffer.
\<close>

definition bufferCopy :: "shellBufferHandle_t \<Rightarrow> fault + char list" where
  "bufferCopy s =
     memcpy ''bufferCopy'' (replicate SHELL_CMD_LEN NUL) ''rxBuffer'' (rxBuffer s) (rxLen s)"

text \<open>
  \<open>sprintf(cmdName, "%s", extractCmd)\<close> with the first token; \<open>strtok\<close> returns
  NULL when the line has none.
\<close>

definition exctractCommand :: "shellBufferHandle_t \<Rightarrow> shellParserOutput_t \<Rightarrow> fault + (shell_error \<times> shellParserOutput_t)" where
  "exctractCommand s cmdParseOut =
     (case bufferCopy s of
        Inl e \<Rightarrow> Inl e
      | Inr bc \<Rightarrow>
         (case strtok ''bufferCopy'' bc of
            Inl e \<Rightarrow> Inl e
          | Inr (None, rest) \<Rightarrow> Inl NullString
          | Inr (Some extractCmd, rest) \<Rightarrow> Inr (SHELL_OK, cmdParseOut\<lparr>cmdName := extractCmd\<rparr>)))"

text \<open>
  The loop of \<open>extractArguments\<close>. \<open>memset\<close> clears \<open>strlen + 1\<close> bytes of the
  \<open>SHELL_ARG_LEN\<close> bytes of \<open>argContents\<close>; the first byte of a token is its first
  character, or its terminator when it is empty.
\<close>

function argLoop :: "shellParserOutput_t \<Rightarrow> nat \<Rightarrow> string option \<Rightarrow> char list \<Rightarrow> fault + (shellParserOutput_t \<times> nat)" where
  "argLoop cmdParseOut i extractArg rest =
     (if i < MAX_ARGUMENTS then
        (case extractArg of
           None \<Rightarrow> Inr (cmdParseOut, i)
         | Some tok \<Rightarrow>
             if length tok + 1 > SHELL_ARG_LEN then Inl (OutOfBounds ''argContents'' SHELL_ARG_LEN)
             else if i \<ge> length (cmdArgs cmdParseOut) then Inl (OutOfBounds ''cmdArgs'' i)
             else
               (let arg = \<lparr>argContents = tok, argContLen = length tok - 1,
                          argToken = getTokenFromChar (case tok of [] \<Rightarrow> NUL | c # cs \<Rightarrow> c)\<rparr>;
                    po = cmdParseOut\<lparr>cmdArgs := (cmdArgs cmdParseOut)[i := Some arg]\<rparr>
                in case strtok ''bufferCopy'' rest of
                     Inl e \<Rightarrow> Inl e
                   | Inr (next, rest') \<Rightarrow> argLoop po (i + 1) next rest'))
      else Inr (cmdParseOut, i))"
  by pat_completeness auto
termination
  by (relation "measure (\<lambda>(cmdParseOut, i, extractArg, rest). MAX_ARGUMENTS - i)") auto

definition extractArguments :: "shellBufferHandle_t \<Rightarrow> shellParserOutput_t \<Rightarrow> fault + (shell_error \<times> shellParserOutput_t)" where
  "extractArguments s cmdParseOut =
     (case bufferCopy s of
        Inl e \<Rightarrow> Inl e
      | Inr bc \<Rightarrow>
         (case strtok ''bufferCopy'' bc of
            Inl e \<Rightarrow> Inl e
          | Inr (cmd, rest0) \<Rightarrow>
             (case strtok ''bufferCopy'' rest0 of
                Inl e \<Rightarrow> Inl e
              | Inr (extractArg, rest) \<Rightarrow>
                 (case argLoop cmdParseOut 0 extractArg rest of
                    Inl e \<Rightarrow> Inl e
                  | Inr (po, i) \<Rightarrow> Inr (SHELL_OK, po\<lparr>numArgs := i\<rparr>)))))"

definition shellParseCommand :: "shellBufferHandle_t \<Rightarrow> shellParserOutput_t \<Rightarrow> fault + (shell_error \<times> shellBufferHandle_t \<times> shellParserOutput_t)" where
  "shellParseCommand s cmdParseOut =
     (case scrubWhiteSpace s of
        Inl e \<Rightarrow> Inl e
      | Inr (st0, s1) \<Rightarrow>
         (case exctractCommand s1 cmdParseOut of
            Inl e \<Rightarrow> Inl e
          | Inr (status, po1) \<Rightarrow>
              if status \<noteq> SHELL_OK then Inr (status, s1, po1)
              else
                (case extractArguments s1 po1 of
                   Inl e \<Rightarrow> Inl e
                 | Inr (status2, po2) \<Rightarrow> Inr (status2, s1, po2))))"

subsection \<open>Matching and validation\<close>

text \<open>
  Every case computes \<open>ret\<close> and tests \<open>ret < 0 && ret > bound\<close>. For
  \<open>arg_char\<close>, \<open>ret\<close> is the first byte of the string (its terminator when empty).
\<close>

definition validateArgType :: "argType_t \<Rightarrow> string \<Rightarrow> bool" where
  "validateArgType argDataType dataString =
     (case argDataType of
        arg_uint8 \<Rightarrow>
          (let ret = strtol dataString in if ret < 0 \<and> ret > 0xFF then False else True)
      | arg_uint16 \<Rightarrow>
          (let ret = strtol dataString in if ret < 0 \<and> ret > 0xFFFF then False else True)
      | arg_uint32 \<Rightarrow>
          (let ret = strtol dataString in if ret < 0 \<and> ret > 0xFFFFFFFF then False else True)
      | arg_char \<Rightarrow>
          (let ret = (case dataString of [] \<Rightarrow> 0 | c # cs \<Rightarrow> int (of_char c :: nat))
           in if ret < 32 \<and> ret > 127 then False else True)
      | arg_string \<Rightarrow> True
      | arg_float \<Rightarrow> True
      | arg_flag \<Rightarrow> True)"

text \<open>
  The inner loop of \<open>validateArgs\<close> over the parsed arguments, for one mandatory
  template entry: \<open>None\<close> when \<open>validateArgs\<close> returns false from inside it, else
  \<open>Some tokenFound\<close>.
\<close>

function findToken :: "shellArgTemplate_t \<Rightarrow> shellParserOutput_t \<Rightarrow> nat \<Rightarrow> bool \<Rightarrow> fault + bool option" where
  "findToken te cmdParserOutput j tokenFound =
     (if j < numArgs cmdParserOutput then
        (if j \<ge> length (cmdArgs cmdParserOutput) then Inl (OutOfBounds ''cmdArgs'' j)
         else
           (case cmdArgs cmdParserOutput ! j of
              None \<Rightarrow> Inl Uninitialised
            | Some a \<Rightarrow>
                if argToken a = token te then
                  (if \<not> validateArgType (argtype te) (argContents a) then Inr None
                   else findToken te cmdParserOutput (j + 1) True)
                else findToken te cmdParserOutput (j + 1) tokenFound))
      else Inr (Some tokenFound))"
  by pat_completeness auto
termination
  by (relation "measure (\<lambda>(te, cmdParserOutput, j, tokenFound). numArgs cmdParserOutput - j)") auto

function validateLoop :: "shellCmdTemplate_t \<Rightarrow> shellParserOutput_t \<Rightarrow> nat \<Rightarrow> fault + bool" where
  "validateLoop cmd cmdParserOutput i =
     (if i < tnumArgs cmd then
        (if i \<ge> length (cmdArgsTable cmd) then Inl (OutOfBounds ''cmdArgsTable'' i)
         else if mandatory (cmdArgsTable cmd ! i) then
           (case findToken (cmdArgsTable cmd ! i) cmdParserOutput 0 False of
              Inl e \<Rightarrow> Inl e
            | Inr None \<Rightarrow> Inr False
            | Inr (Some tokenFound) \<Rightarrow>
                if \<not> tokenFound then Inr False
                else validateLoop cmd cmdParserOutput (i + 1))
         else validateLoop cmd cmdParserOutput (i + 1))
      else Inr True)"
  by pat_completeness auto
termination
  by (relation "measure (\<lambda>(cmd, cmdParserOutput, i). tnumArgs cmd - i)") auto

definition validateArgs :: "shellCmdTemplate_t list \<Rightarrow> shellParserOutput_t \<Rightarrow> nat \<Rightarrow> fault + bool" where
  "validateArgs tbl cmdParserOutput commandIndex =
     (if commandIndex < length tbl then validateLoop (tbl ! commandIndex) cmdParserOutput 0
      else Inl (OutOfBounds ''shellCmdTemplateTable'' commandIndex))"

text \<open>
  The loop of \<open>matchCommand\<close> over the table, whose length is \<open>NUM_OF_COMMANDS\<close>
  (the counter is a \<open>uint8_t\<close>: the table has fewer than 256 entries). The index is
  stored into an \<open>int8_t\<close>.
\<close>

function matchLoop :: "shellCmdTemplate_t list \<Rightarrow> shellParserOutput_t \<Rightarrow> nat \<Rightarrow> bool \<Rightarrow> int \<Rightarrow> bool \<times> int" where
  "matchLoop tbl cmdParserOutput i matchFlag commandIndex =
     (if i < length tbl then
        (if strcmp (cmdName cmdParserOutput) (tcmdName (tbl ! i)) = 0
         then matchLoop tbl cmdParserOutput (i + 1) True (to_int8 (int i))
         else matchLoop tbl cmdParserOutput (i + 1) matchFlag commandIndex)
      else (matchFlag, commandIndex))"
  by pat_completeness auto
termination
  by (relation "measure (\<lambda>(tbl, cmdParserOutput, i, matchFlag, commandIndex). length tbl - i)") auto

text \<open>
  \<open>matchCommand\<close> returns its status and what it leaves in \<open>*commandIndex\<close>, whose
  content before the call is \<open>commandIndex0\<close>.
\<close>

definition matchCommand :: "shellCmdTemplate_t list \<Rightarrow> shellParserOutput_t \<Rightarrow> int \<Rightarrow> shell_error \<times> int" where
  "matchCommand tbl cmdParserOutput commandIndex0 =
     (case matchLoop tbl cmdParserOutput 0 False commandIndex0 of
        (matchFlag, commandIndex) \<Rightarrow>
          if matchFlag = False then (SHELL_OK, - 1) else (SHELL_OK, commandIndex))"

subsection \<open>Responses and the pipeline\<close>

definition outputStreamChannel :: "string \<Rightarrow> world \<Rightarrow> world" where
  "outputStreamChannel buffer w = w\<lparr>sink := sink w @ [buffer]\<rparr>"

text \<open>The \<open>switch\<close> has no case for \<open>RESPONSE_FNC_ERR\<close>.\<close>

definition shellSendResponse :: "responseCode_t \<Rightarrow> world \<Rightarrow> shell_error \<times> world" where
  "shellSendResponse code w =
     (case code of
        RESPONSE_OK \<Rightarrow> (SHELL_OK, outputStreamChannel (''-->OK!'' @ [CR, LF]) w)
      | RESPONSE_CMD_ERR \<Rightarrow> (SHELL_OK, outputStreamChannel (''Command Error!'' @ [CR, LF]) w)
      | RESPONSE_ARG_ERR \<Rightarrow> (SHELL_OK, outputStreamChannel (''Argument Error!'' @ [CR, LF]) w)
      | RESPONSE_FNC_ERR \<Rightarrow> (SHELL_OK, w))"

text \<open>
  \<open>getCommand\<close> returns its status, what it leaves in \<open>*commandTableIndex\<close>
  (\<open>None\<close>: not assigned) and the world. The local \<open>commandIndex\<close> is not
  initialised: its content is \<open>commandIndex0\<close>.
\<close>

definition getCommand :: "shellCmdTemplate_t list \<Rightarrow> shellParserOutput_t \<Rightarrow> int \<Rightarrow> world \<Rightarrow> fault + (shell_error \<times> nat option \<times> world)" where
  "getCommand tbl cmdParserOutput commandIndex0 w =
     (case matchCommand tbl cmdParserOutput commandIndex0 of
        (st, commandIndex) \<Rightarrow>
          if commandIndex < 0 then
            Inr (SHELL_ERR, None, snd (shellSendResponse RESPONSE_CMD_ERR w))
          else
            (case validateArgs tbl cmdParserOutput (to_uint8 commandIndex) of
               Inl e \<Rightarrow> Inl e
             | Inr valid \<Rightarrow>
                 if \<not> valid then Inr (SHELL_ERR, None, snd (shellSendResponse RESPONSE_ARG_ERR w))
                 else Inr (SHELL_OK, Some (to_uint8 commandIndex), w)))"

text \<open>The parser output before anything is written to it.\<close>

definition parserOutput0 :: shellParserOutput_t where
  "parserOutput0 = \<lparr>cmdName = [], numArgs = 0, cmdArgs = replicate MAX_ARGUMENTS None\<rparr>"

text \<open>
  \<open>shellProcessCommand\<close>: the value the runner returns is dropped, the status returned
  is the one of \<open>getCommand\<close>.
\<close>

definition shellProcessCommand :: "shellCmdTemplate_t list \<Rightarrow> int \<Rightarrow> shellBufferHandle_t \<Rightarrow> world \<Rightarrow> fault + (shell_error \<times> shellBufferHandle_t \<times> world)" where
  "shellProcessCommand tbl commandIndex0 s w =
     (case shellParseCommand s parserOutput0 of
        Inl e \<Rightarrow> Inl e
      | Inr (status, s1, parserOutput) \<Rightarrow>
          if status \<noteq> SHELL_OK then Inr (status, s1, w)
          else
            (case getCommand tbl parserOutput commandIndex0 w of
               Inl e \<Rightarrow> Inl e
             | Inr (status2, cti, w1) \<Rightarrow>
                 if status2 \<noteq> SHELL_OK then Inr (status2, s1, w1)
                 else
                   (case cti of
                      None \<Rightarrow> Inl Uninitialised
                    | Some commandTableIndex \<Rightarrow>
                        if commandTableIndex \<ge> length tbl
                        then Inl (OutOfBounds ''shellCmdTemplateTable'' commandTableIndex)
                        else
                          (case runner (tbl ! commandTableIndex) parserOutput (sink w1) of
                             (r, out) \<Rightarrow>
                               Inr (status2, s1,
                                    w1\<lparr>sink := out, invoked := invoked w1 @ [commandTableIndex]\<rparr>)))))"

subsection \<open>The public functions\<close>

text \<open>
  \<open>rxShellInput(Buf, Len)\<close>: \<open>Buf\<close> is the transport's array, \<open>Len\<close> the value
  \<open>Len[0]\<close>. The flag and the length are stored before the copy, and nothing compares
  the length with the size of \<open>rxBuffer\<close>.
\<close>

definition rxShellInput :: "shellBufferHandle_t \<Rightarrow> char list \<Rightarrow> nat \<Rightarrow> fault + shellBufferHandle_t" where
  "rxShellInput s Buf Len =
     (case Buf of
        [] \<Rightarrow> Inl (OutOfBounds ''Buf'' 0)
      | b # bs \<Rightarrow>
          if (of_char b :: nat) \<noteq> 13 then
            (let s1 = s\<lparr>rxFlag := True, rxLen := Len\<rparr> in
             case memcpy ''rxBuffer'' (rxBuffer s1) ''Buf'' Buf (rxLen s1) of
               Inl e \<Rightarrow> Inl e
             | Inr buf \<Rightarrow> Inr (s1\<lparr>rxBuffer := buf\<rparr>))
          else Inr s)"

text \<open>
  \<open>checkShellStatus\<close>: the local \<open>status\<close> has no initialiser, and is assigned only
  when the flag is set. The status returned is \<open>None\<close> when it was never assigned.
\<close>

definition checkShellStatus :: "shellCmdTemplate_t list \<Rightarrow> int \<Rightarrow> shellBufferHandle_t \<Rightarrow> world \<Rightarrow> fault + (shell_error option \<times> shellBufferHandle_t \<times> world)" where
  "checkShellStatus tbl commandIndex0 s w =
     (if rxFlag s then
        (case shellProcessCommand tbl commandIndex0 s w of
           Inl e \<Rightarrow> Inl e
         | Inr (status, s1, w1) \<Rightarrow> Inr (Some status, s1\<lparr>rxFlag := False\<rparr>, w1))
      else Inr (None, s, w))"

subsection \<open>The command table of CLI\_SHELL\_COMMANDS.h\<close>

definition TAB :: char where
  "TAB = CHR 0x09"

definition DQ :: char where
  "DQ = CHR 0x22"

definition help_banner :: string where
  "help_banner =
     ''<-- Shell Debug Kernel -->'' @ [CR, LF] @
     ''<-- Rev: 01.01.00      -->'' @ [CR, LF] @
     ''Command'' @ [TAB] @ ''| Description'' @ [TAB, TAB] @ ''| Arguments'' @ [CR, LF, CR, LF]"

text \<open>
  \<open>HelpRunner\<close> appends the help text of every command of the table to the banner;
  \<open>descs\<close> are those texts. They fit its 500-byte buffer for the table below.
\<close>

definition HelpRunner :: "string list \<Rightarrow> shellParserOutput_t \<Rightarrow> string list \<Rightarrow> shell_error \<times> string list" where
  "HelpRunner descs parserInput out = (SHELL_OK, out @ [help_banner @ concat descs])"

definition PingRunner :: "shellParserOutput_t \<Rightarrow> string list \<Rightarrow> shell_error \<times> string list" where
  "PingRunner package out = (SHELL_OK, out @ [''Pong!'' @ [CR, LF]])"

definition help_descs :: "string list" where
  "help_descs =
     [''help'' @ [TAB] @ ''| Display the Help Menu'' @ [TAB] @ ''| No Arguments'' @ [CR, LF],
      ''?'' @ [TAB] @ ''| Display the Help Menu'' @ [TAB] @ ''| No Arguments'' @ [CR, LF],
      ''ping'' @ [TAB] @ ''| Responds '' @ [DQ] @ ''Pong!'' @ [DQ] @ [TAB] @ ''| No Arguments'' @ [CR, LF]]"

definition shellCmdTemplateTable :: "shellCmdTemplate_t list" where
  "shellCmdTemplateTable =
     [\<lparr>tcmdName = ''help'', helpDesc = help_descs ! 0, runner = HelpRunner help_descs,
       tnumArgs = 0, cmdArgsTable = []\<rparr>,
      \<lparr>tcmdName = ''?'', helpDesc = help_descs ! 1, runner = HelpRunner help_descs,
       tnumArgs = 0, cmdArgsTable = []\<rparr>,
      \<lparr>tcmdName = ''ping'', helpDesc = help_descs ! 2, runner = PingRunner,
       tnumArgs = 0, cmdArgsTable = []\<rparr>]"

text \<open>
  The shell buffer at start-up (a global: all 0), and the state after the transport
  has delivered a line to it.
\<close>

definition shellBuffer0 :: shellBufferHandle_t where
  "shellBuffer0 = \<lparr>rxFlag = False, rxBuffer = replicate SHELL_BUFFER_LEN NUL, rxLen = 0\<rparr>"

definition world0 :: world where
  "world0 = \<lparr>sink = [], invoked = []\<rparr>"

definition received :: "string \<Rightarrow> shellBufferHandle_t" where
  "received l =
     \<lparr>rxFlag = True, rxBuffer = l @ replicate (SHELL_BUFFER_LEN - length l) NUL,
      rxLen = length l\<rparr>"

text \<open>The line the parser sees: the first \<open>rxLen\<close> bytes of the buffer.\<close>

definition line :: "shellBufferHandle_t \<Rightarrow> string" where
  "line s = take (rxLen s) (rxBuffer s)"

subsection \<open>What the specification asks of a line\<close>

text \<open>
  A normalised line has no leading space, no trailing space and no two consecutive
  spaces.
\<close>

fun doubleSpace :: "string \<Rightarrow> bool" where
  "doubleSpace (a # b # cs) = ((a = SP \<and> b = SP) \<or> doubleSpace (b # cs))"
| "doubleSpace cs = False"

definition normalised :: "string \<Rightarrow> bool" where
  "normalised l = (take 1 l \<noteq> [SP] \<and> take 1 (rev l) \<noteq> [SP] \<and> \<not> doubleSpace l)"







subsection \<open>Example tables\<close>

text \<open>
  A table with one command, \<open>setval\<close>, that has one mandatory \<open>arg_uint8\<close> argument
  with the token \<open>a\<close> (the shape of the template entry in CLI\_SHELL\_COMMANDS.h), and a
  parser output that supplies the token \<open>a\<close> with the content \<open>999\<close>.
\<close>

definition setvalTable :: "shellCmdTemplate_t list" where
  "setvalTable =
     [\<lparr>tcmdName = ''setval'', helpDesc = [], runner = (\<lambda>po out. (SHELL_OK, out)),
       tnumArgs = 1,
       cmdArgsTable = [\<lparr>mandatory = True, argtype = arg_uint8, token = argTkn_a\<rparr>]\<rparr>]"

definition setval999 :: shellParserOutput_t where
  "setval999 =
     \<lparr>cmdName = ''setval'', numArgs = 1,
      cmdArgs = [Some \<lparr>argContents = ''999'', argContLen = 2, argToken = argTkn_a\<rparr>,
                 None, None, None, None]\<rparr>"

text \<open>
  A table of 130 commands: 129 copies of the \<open>help\<close> entry of the source's table,
  then its \<open>ping\<close> entry, at index 129.
\<close>

definition bigTable :: "shellCmdTemplate_t list" where
  "bigTable = replicate 129 (shellCmdTemplateTable ! 0) @ [shellCmdTemplateTable ! 2]"



text \<open>
  A table with one command, \<open>fail\<close>, without arguments, whose runner sends nothing and
  returns \<open>SHELL_ERR\<close>.
\<close>

definition failTable :: "shellCmdTemplate_t list" where
  "failTable =
     [\<lparr>tcmdName = ''fail'', helpDesc = [], runner = (\<lambda>po out. (SHELL_ERR, out)),
       tnumArgs = 0, cmdArgsTable = []\<rparr>]"

section \<open>Properties\<close>

subsection \<open>Receiving a line\<close>

lemma of_char_not_CR: "b \<noteq> CR \<Longrightarrow> (of_char b :: nat) \<noteq> 13"
  using of_char_eq_iff[of b CR, where ?'a = nat] by (simp add: CR_def)

text \<open>
  \<open>received l\<close> is the state \<open>rxShellInput\<close> leaves when the transport delivers the
  line \<open>l\<close> (at most \<open>SHELL_BUFFER_LEN\<close> bytes, not starting with a carriage return)
  to the start-up buffer.
\<close>

lemma rxShellInput_received:
  assumes "length l \<le> SHELL_BUFFER_LEN" and "take 1 l \<noteq> [CR]"
  shows "rxShellInput shellBuffer0 (l @ [NUL]) (length l) = Inr (received l)"
proof (cases l)
  case Nil
  then show ?thesis
    by (simp add: rxShellInput_def received_def shellBuffer0_def memcpy_def NUL_def)
next
  case (Cons b bs)
  then have "b \<noteq> CR" using assms(2) by simp
  then have "(of_char b :: nat) \<noteq> 13" by (rule of_char_not_CR)
  then show ?thesis using assms(1) Cons
    by (simp add: rxShellInput_def received_def shellBuffer0_def memcpy_def Let_def)
qed

text \<open>
  Claim C3. A call of \<open>rxShellInput\<close> with a length above the capacity of the line
  buffer should be rejected, and write nothing beyond the capacity. It is not: for
  every such call (the transport's array holds \<open>Len\<close> bytes and does not start with a
  carriage return), the copy reaches element \<open>SHELL_BUFFER_LEN\<close> of \<open>rxBuffer\<close>,
  the first one after the array.
\<close>

theorem rxShellInput_oversize_writes_past_buffer:
  assumes "SHELL_BUFFER_LEN < Len" and "Len \<le> length Buf" and "take 1 Buf \<noteq> [CR]"
      and "length (rxBuffer s) = SHELL_BUFFER_LEN"
  shows "rxShellInput s Buf Len = Inl (OutOfBounds ''rxBuffer'' SHELL_BUFFER_LEN)"
proof (cases Buf)
  case Nil
  then show ?thesis using assms by simp
next
  case (Cons b bs)
  then have "b \<noteq> CR" using assms(3) by simp
  then have "(of_char b :: nat) \<noteq> 13" by (rule of_char_not_CR)
  then show ?thesis using assms Cons
    by (simp add: rxShellInput_def memcpy_def Let_def)
qed

theorem rxShellInput_oversize_witness:
  "SHELL_BUFFER_LEN < 101 \<and> 101 \<le> length (replicate 101 (CHR ''a'')) \<and>
   take 1 (replicate 101 (CHR ''a'')) \<noteq> [CR] \<and>
   length (rxBuffer shellBuffer0) = SHELL_BUFFER_LEN \<and>
   rxShellInput shellBuffer0 (replicate 101 (CHR ''a'')) 101 = Inl (OutOfBounds ''rxBuffer'' 100)"
proof -
  have h1: "SHELL_BUFFER_LEN < 101" by (simp add: SHELL_BUFFER_LEN_def)
  have h2: "101 \<le> length (replicate 101 (CHR ''a''))" by simp
  have h3: "take 1 (replicate 101 (CHR ''a'')) \<noteq> [CR]" by code_simp
  have h4: "length (rxBuffer shellBuffer0) = SHELL_BUFFER_LEN" by (simp add: shellBuffer0_def)
  show ?thesis
    using h1 h2 h3 h4 rxShellInput_oversize_writes_past_buffer[OF h1 h2 h3 h4]
    by (simp add: SHELL_BUFFER_LEN_def)
qed

subsection \<open>scrubWhiteSpace\<close>

lemma shiftLoop_spaces:
  "\<forall>k<len. buf ! k = SP \<Longrightarrow> len \<le> length buf \<Longrightarrow> shiftLoop buf i (int len - 1) = Inr buf"
proof (induction buf i "int len - 1" rule: shiftLoop.induct)
  case (1 buf i)
  show ?case
  proof (cases "int i < int len - 1")
    case True
    then have i1: "i + 1 < len" by simp
    then have r: "rd buf (i + 1) = Inr SP" using 1 by (simp add: rd_def)
    have w: "wr buf i SP = Inr buf" using 1 i1 by (simp add: wr_def list_update_same_conv)
    have "shiftLoop buf (i + 1) (int len - 1) = Inr buf"
      using "1.hyps"[OF True r w] "1.prems" by simp
    then show ?thesis using True r w by (subst shiftLoop.simps) simp
  next
    case False
    then show ?thesis by (subst shiftLoop.simps) simp
  qed
qed

lemma scrubLeading_spaces:
  "\<forall>k<len. buf ! k = SP \<Longrightarrow> len \<le> length buf \<Longrightarrow> 0 < length buf \<Longrightarrow>
   scrubLeading buf len = Inr (buf, 0)"
proof (induction len)
  case 0
  then show ?case by (subst scrubLeading.simps) (simp add: rd_def)
next
  case (Suc len)
  have r: "rd buf 0 = Inr SP" using Suc.prems by (simp add: rd_def)
  have s: "shiftLoop buf 0 (int (Suc len) - 1) = Inr buf"
    by (rule shiftLoop_spaces) (use Suc.prems in auto)
  have "scrubLeading buf len = Inr (buf, 0)" using Suc by simp
  then show ?case using r s by (subst scrubLeading.simps) simp
qed

text \<open>
  Claim C2. On an empty or all-space line, every index \<open>scrubWhiteSpace\<close> forms should
  lie within the line. It does not: for every line of \<open>n\<close> spaces (\<open>n = 0\<close> is the
  empty line), the leading-space loop brings the length to 0, \<open>lastIndex\<close> becomes
  \<open>0 - 1\<close> in a \<open>uint8_t\<close>, that is 255, and \<open>rxBuffer[255]\<close> is read, outside the
  100 bytes of the buffer.
\<close>

theorem scrubWhiteSpace_blank_line_reads_index_255:
  assumes "n \<le> SHELL_BUFFER_LEN"
  shows "scrubWhiteSpace (received (replicate n SP)) = Inl (OutOfBounds ''rxBuffer'' 255)"
proof -
  let ?buf = "rxBuffer (received (replicate n SP))"
  have len: "length ?buf = SHELL_BUFFER_LEN" using assms by (simp add: received_def)
  have sp: "\<forall>k<n. ?buf ! k = SP" by (simp add: received_def nth_append)
  have n8: "to_uint8 (int (rxLen (received (replicate n SP)))) = n"
    using assms by (simp add: received_def to_uint8_def SHELL_BUFFER_LEN_def)
  have lead: "scrubLeading ?buf n = Inr (?buf, 0)"
    by (rule scrubLeading_spaces) (use sp len assms in \<open>auto simp: SHELL_BUFFER_LEN_def\<close>)
  have trail: "scrubTrailing ?buf (to_uint8 (int 0 - 1)) 0 = Inl (OutOfBounds ''rxBuffer'' 255)"
    using len by (subst scrubTrailing.simps) (simp add: rd_def to_uint8_def SHELL_BUFFER_LEN_def)
  show ?thesis
    unfolding scrubWhiteSpace_def n8 lead using trail by simp
qed

theorem scrubWhiteSpace_blank_line_witness:
  "(0::nat) \<le> SHELL_BUFFER_LEN \<and> (3::nat) \<le> SHELL_BUFFER_LEN \<and>
   scrubWhiteSpace (received []) = Inl (OutOfBounds ''rxBuffer'' 255) \<and>
   scrubWhiteSpace (received [SP, SP, SP]) = Inl (OutOfBounds ''rxBuffer'' 255)"
proof -
  have h0: "(0::nat) \<le> SHELL_BUFFER_LEN" and h3: "(3::nat) \<le> SHELL_BUFFER_LEN"
    by (simp_all add: SHELL_BUFFER_LEN_def)
  have r3: "replicate 3 SP = [SP, SP, SP]" by (simp add: numeral_3_eq_3)
  show ?thesis
    using h0 h3 scrubWhiteSpace_blank_line_reads_index_255[OF h0]
      scrubWhiteSpace_blank_line_reads_index_255[OF h3] r3
    by simp
qed

text \<open>
  Claim C5. After \<open>scrubWhiteSpace\<close> the line should have no leading space, no trailing
  space and no two consecutive spaces. On the line \<open>cmd  x\<close> (two spaces) it has both
  of the latter: at the two spaces the inner loop runs for \<open>j < currentLength - 2\<close>,
  which moves nothing, and the length drops to 5, so the line becomes \<open>cmd\<close> followed
  by two spaces.
\<close>

theorem scrubWhiteSpace_leaves_double_and_trailing_space:
  "scrubWhiteSpace (received ''cmd  x'') =
     Inr (SHELL_OK, \<lparr>rxFlag = True, rxBuffer = ''cmd  x'' @ replicate 94 NUL, rxLen = 5\<rparr>) \<and>
   line \<lparr>rxFlag = True, rxBuffer = ''cmd  x'' @ replicate 94 NUL, rxLen = 5\<rparr> = ''cmd  '' \<and>
   normalised ''cmd  '' = False"
  by code_simp

text \<open>
  Claim C6. Scrubbing twice should give the same buffer and length as scrubbing once.
  On the line \<open>a  b\<close> (two spaces) it does not: the first call leaves the length 3
  (\<open>a\<close> and two spaces), the second call strips the two trailing spaces and leaves
  the length 1.
\<close>

theorem scrubWhiteSpace_twice_differs:
  "scrubWhiteSpace (received ''a  b'') =
     Inr (SHELL_OK, \<lparr>rxFlag = True, rxBuffer = ''a  b'' @ replicate 96 NUL, rxLen = 3\<rparr>) \<and>
   scrubWhiteSpace \<lparr>rxFlag = True, rxBuffer = ''a  b'' @ replicate 96 NUL, rxLen = 3\<rparr> =
     Inr (SHELL_OK, \<lparr>rxFlag = True, rxBuffer = ''a  b'' @ replicate 96 NUL, rxLen = 1\<rparr>)"
  by code_simp




subsection \<open>validateArgType\<close>

text \<open>No argument type and no content make \<open>validateArgType\<close> return false.\<close>

lemma validateArgType_True: "validateArgType t s = True"
  by (cases t) (auto simp: validateArgType_def Let_def)

text \<open>
  Claim C1. For a mandatory \<open>arg_uint8\<close> argument, the content \<open>999\<close> should fail
  validation and \<open>42\<close> should pass. Both pass: \<open>strtol\<close> gives 999, the test
  \<open>ret < 0 && ret > 0xFF\<close> is false, and \<open>validateArgs\<close> accepts a parser output
  that supplies it. Likewise 65536 passes as \<open>arg_uint16\<close> and - 1 as \<open>arg_uint32\<close>.
\<close>

theorem validateArgType_accepts_999:
  "strtol ''999'' = 999 \<and> validateArgType arg_uint8 ''999'' = True \<and>
   validateArgs setvalTable setval999 0 = Inr True \<and>
   strtol ''42'' = 42 \<and> validateArgType arg_uint8 ''42'' = True \<and>
   strtol ''65536'' = 65536 \<and> validateArgType arg_uint16 ''65536'' = True \<and>
   strtol ''-1'' = - 1 \<and> validateArgType arg_uint32 ''-1'' = True"
  by code_simp

subsection \<open>matchCommand\<close>

lemma strcmp_eq_0: "strcmp a b = 0 \<longleftrightarrow> a = b"
  by (induction a b rule: strcmp.induct) auto

lemma matchLoop_none:
  "(\<And>k. i \<le> k \<Longrightarrow> k < length tbl \<Longrightarrow> tcmdName (tbl ! k) \<noteq> cmdName po) \<Longrightarrow>
   matchLoop tbl po i mf ci = (mf, ci)"
proof (induction tbl po i mf ci rule: matchLoop.induct)
  case (1 tbl po i mf ci)
  show ?case
  proof (cases "i < length tbl")
    case True
    then have ne: "strcmp (cmdName po) (tcmdName (tbl ! i)) \<noteq> 0"
      using "1.prems"[of i] by (auto simp: strcmp_eq_0)
    have "matchLoop tbl po (i + 1) mf ci = (mf, ci)"
      using "1.IH"(2)[OF True ne] "1.prems" by simp
    then show ?thesis using True ne by (subst matchLoop.simps) simp
  next
    case False
    then show ?thesis by (subst matchLoop.simps) simp
  qed
qed

lemma matchLoop_last:
  "i \<le> k \<Longrightarrow> k < length tbl \<Longrightarrow> tcmdName (tbl ! k) = cmdName po \<Longrightarrow>
   (\<And>j. k < j \<Longrightarrow> j < length tbl \<Longrightarrow> tcmdName (tbl ! j) \<noteq> cmdName po) \<Longrightarrow>
   matchLoop tbl po i mf ci = (True, to_int8 (int k))"
proof (induction tbl po i mf ci rule: matchLoop.induct)
  case (1 tbl po i mf ci)
  have lt: "i < length tbl" using "1.prems" by simp
  show ?case
  proof (cases "strcmp (cmdName po) (tcmdName (tbl ! i)) = 0")
    case True
    show ?thesis
    proof (cases "i = k")
      case True
      have "matchLoop tbl po (i + 1) True (to_int8 (int i)) = (True, to_int8 (int i))"
        by (rule matchLoop_none) (use "1.prems" True in auto)
      then show ?thesis
        using lt \<open>strcmp (cmdName po) (tcmdName (tbl ! i)) = 0\<close> True
        by (subst matchLoop.simps) simp
    next
      case False
      then have "i + 1 \<le> k" using "1.prems" by simp
      then have "matchLoop tbl po (i + 1) True (to_int8 (int i)) = (True, to_int8 (int k))"
        using "1.IH"(1)[OF lt True] "1.prems" by simp
      then show ?thesis using lt True by (subst matchLoop.simps) simp
    qed
  next
    case False
    then have "i \<noteq> k" using "1.prems" by (auto simp: strcmp_eq_0)
    then have "i + 1 \<le> k" using "1.prems" by simp
    then have "matchLoop tbl po (i + 1) mf ci = (True, to_int8 (int k))"
      using "1.IH"(2)[OF lt False] "1.prems" by simp
    then show ?thesis using lt False by (subst matchLoop.simps) simp
  qed
qed

lemma to_int8_id: "k < 128 \<Longrightarrow> to_int8 (int k) = int k"
  by (simp add: to_int8_def)

lemma last_match_exists:
  fixes P :: "nat \<Rightarrow> bool"
  assumes "k < n" "P k"
  shows "\<exists>m<n. P m \<and> (\<forall>j<n. m < j \<longrightarrow> \<not> P j)"
proof -
  let ?S = "{m. m < n \<and> P m}"
  have fin: "finite ?S" by simp
  have ne: "?S \<noteq> {}" using assms by auto
  have in_S: "Max ?S \<in> ?S" using Max_in[OF fin ne] .
  have "\<forall>j<n. Max ?S < j \<longrightarrow> \<not> P j"
  proof (intro allI impI notI)
    fix j assume "j < n" "Max ?S < j" "P j"
    then have "j \<in> ?S" by simp
    then have "j \<le> Max ?S" using Max_ge[OF fin] by blast
    with \<open>Max ?S < j\<close> show False by simp
  qed
  with in_S show ?thesis by blast
qed

text \<open>
  Claim C7, as stated, for every table: a name equal to an entry's name gives the index
  of that entry. It fails on a table of more than 128 entries, because the index is
  stored into an \<open>int8_t\<close>: in the table of 130 commands the name \<open>ping\<close> is the
  name of entry 129 only, \<open>matchCommand\<close> leaves - 127, and the shell answers
  \<open>Command Error!\<close> without calling a runner.
\<close>

theorem matchCommand_index_129_wraps:
  "length bigTable = 130 \<and>
   tcmdName (bigTable ! 129) = ''ping'' \<and>
   ''ping'' \<notin> set (map tcmdName (take 129 bigTable)) \<and>
   matchCommand bigTable (parserOutput0\<lparr>cmdName := ''ping''\<rparr>) 0 = (SHELL_OK, - 127) \<and>
   checkShellStatus bigTable 0 (received ''ping'') world0 =
     Inr (Some SHELL_ERR, (received ''ping'')\<lparr>rxFlag := False\<rparr>,
          \<lparr>sink = [''Command Error!'' @ [CR, LF]], invoked = []\<rparr>)"
proof -
  let ?po = "parserOutput0\<lparr>cmdName := ''ping''\<rparr>"
  let ?w = "\<lparr>sink = [''Command Error!'' @ [CR, LF]], invoked = []\<rparr>"
  have len: "length bigTable = 130"
    by (simp add: bigTable_def)
  have last: "tcmdName (bigTable ! 129) = ''ping''"
    by (simp add: bigTable_def nth_append shellCmdTemplateTable_def)
  have before: "''ping'' \<notin> set (map tcmdName (take 129 bigTable))"
    by (simp add: bigTable_def shellCmdTemplateTable_def)
  have "matchLoop bigTable ?po 0 False 0 = (True, to_int8 (int 129))"
    by (rule matchLoop_last) (simp_all add: len last)
  then have m: "matchCommand bigTable ?po 0 = (SHELL_OK, - 127)"
    by (simp add: matchCommand_def to_int8_def)
  have parse: "shellParseCommand (received ''ping'') parserOutput0 =
      Inr (SHELL_OK, received ''ping'', ?po)"
    by code_simp
  have g: "getCommand bigTable ?po 0 world0 = Inr (SHELL_ERR, None, ?w)"
    unfolding getCommand_def m
    by (simp add: shellSendResponse_def outputStreamChannel_def world0_def)
  have p: "shellProcessCommand bigTable 0 (received ''ping'') world0 =
      Inr (SHELL_ERR, received ''ping'', ?w)"
    unfolding shellProcessCommand_def parse by (simp add: g)
  have f: "rxFlag (received ''ping'')" by (simp add: received_def)
  have c: "checkShellStatus bigTable 0 (received ''ping'') world0 =
      Inr (Some SHELL_ERR, (received ''ping'')\<lparr>rxFlag := False\<rparr>, ?w)"
    unfolding checkShellStatus_def p using f by simp
  show ?thesis using len last before m c by simp
qed

text \<open>
  Claim C7, amended. \<open>matchCommand\<close> compares the name with every entry of the table,
  exactly (\<open>strcmp\<close> is 0 only on equal strings). For a table whose indices fit the
  \<open>int8_t\<close> result (at most 128 entries): a name equal to no entry's name gives - 1;
  the last index whose entry has the name is the result; and a name equal to some
  entry's name has such a last index, which is returned.
\<close>

theorem matchCommand_last_match_or_not_found:
  assumes "length tbl \<le> 128"
  shows "((\<forall>k<length tbl. tcmdName (tbl ! k) \<noteq> cmdName po) \<longrightarrow>
            matchCommand tbl po c0 = (SHELL_OK, - 1)) \<and>
         (\<forall>k<length tbl. tcmdName (tbl ! k) = cmdName po \<and>
              (\<forall>j<length tbl. k < j \<longrightarrow> tcmdName (tbl ! j) \<noteq> cmdName po) \<longrightarrow>
            matchCommand tbl po c0 = (SHELL_OK, int k)) \<and>
         ((\<exists>k<length tbl. tcmdName (tbl ! k) = cmdName po) \<longrightarrow>
            (\<exists>k<length tbl. tcmdName (tbl ! k) = cmdName po \<and>
               (\<forall>j<length tbl. k < j \<longrightarrow> tcmdName (tbl ! j) \<noteq> cmdName po) \<and>
               matchCommand tbl po c0 = (SHELL_OK, int k)))"
proof -
  have a: "matchCommand tbl po c0 = (SHELL_OK, - 1)"
    if "\<forall>k<length tbl. tcmdName (tbl ! k) \<noteq> cmdName po"
  proof -
    have "matchLoop tbl po 0 False c0 = (False, c0)"
      by (rule matchLoop_none) (use that in auto)
    then show ?thesis by (simp add: matchCommand_def)
  qed
  have b: "matchCommand tbl po c0 = (SHELL_OK, int k)"
    if "k < length tbl" "tcmdName (tbl ! k) = cmdName po"
       "\<forall>j<length tbl. k < j \<longrightarrow> tcmdName (tbl ! j) \<noteq> cmdName po" for k
  proof -
    have "matchLoop tbl po 0 False c0 = (True, to_int8 (int k))"
      by (rule matchLoop_last) (use that in auto)
    moreover have "to_int8 (int k) = int k"
      using that(1) assms by (intro to_int8_id) simp
    ultimately show ?thesis by (simp add: matchCommand_def)
  qed
  have c: "\<exists>k<length tbl. tcmdName (tbl ! k) = cmdName po \<and>
               (\<forall>j<length tbl. k < j \<longrightarrow> tcmdName (tbl ! j) \<noteq> cmdName po) \<and>
               matchCommand tbl po c0 = (SHELL_OK, int k)"
    if "\<exists>k<length tbl. tcmdName (tbl ! k) = cmdName po"
  proof -
    from that obtain k0 where "k0 < length tbl" "tcmdName (tbl ! k0) = cmdName po" by blast
    from last_match_exists[of k0 "length tbl" "\<lambda>k. tcmdName (tbl ! k) = cmdName po", OF this]
    obtain m where m: "m < length tbl" "tcmdName (tbl ! m) = cmdName po"
      "\<forall>j<length tbl. m < j \<longrightarrow> tcmdName (tbl ! j) \<noteq> cmdName po" by blast
    from b[OF m] m show ?thesis by blast
  qed
  from a b c show ?thesis by blast
qed

text \<open>
  On the table of the source: \<open>ping\<close> is entry 2, and \<open>bogus\<close> and \<open>PING\<close> are not
  found. In a table that has \<open>ping\<close> twice, the second entry is the result.
\<close>

theorem matchCommand_witness:
  "length shellCmdTemplateTable \<le> 128 \<and>
   matchCommand shellCmdTemplateTable (parserOutput0\<lparr>cmdName := ''ping''\<rparr>) 0 = (SHELL_OK, 2) \<and>
   matchCommand shellCmdTemplateTable (parserOutput0\<lparr>cmdName := ''bogus''\<rparr>) 0 = (SHELL_OK, - 1) \<and>
   matchCommand shellCmdTemplateTable (parserOutput0\<lparr>cmdName := ''PING''\<rparr>) 0 = (SHELL_OK, - 1) \<and>
   matchCommand (shellCmdTemplateTable @ [shellCmdTemplateTable ! 2])
     (parserOutput0\<lparr>cmdName := ''ping''\<rparr>) 0 = (SHELL_OK, 3)"
proof -
  have h: "length shellCmdTemplateTable \<le> 128"
    by (simp add: shellCmdTemplateTable_def)
  have h4: "length (shellCmdTemplateTable @ [shellCmdTemplateTable ! 2]) \<le> 128"
    by (simp add: shellCmdTemplateTable_def)
  note T = matchCommand_last_match_or_not_found
  have ping: "matchCommand shellCmdTemplateTable (parserOutput0\<lparr>cmdName := ''ping''\<rparr>) 0 = (SHELL_OK, int 2)"
    by (rule T[OF h, THEN conjunct2, THEN conjunct1, rule_format])
       (simp_all add: shellCmdTemplateTable_def)
  have bogus: "matchCommand shellCmdTemplateTable (parserOutput0\<lparr>cmdName := ''bogus''\<rparr>) 0 = (SHELL_OK, - 1)"
    by (rule T[OF h, THEN conjunct1, rule_format])
       (auto simp: shellCmdTemplateTable_def less_Suc_eq numeral_3_eq_3)
  have upper: "matchCommand shellCmdTemplateTable (parserOutput0\<lparr>cmdName := ''PING''\<rparr>) 0 = (SHELL_OK, - 1)"
    by (rule T[OF h, THEN conjunct1, rule_format])
       (auto simp: shellCmdTemplateTable_def less_Suc_eq numeral_3_eq_3)
  have twice: "matchCommand (shellCmdTemplateTable @ [shellCmdTemplateTable ! 2])
     (parserOutput0\<lparr>cmdName := ''ping''\<rparr>) 0 = (SHELL_OK, int 3)"
    by (rule T[OF h4, THEN conjunct2, THEN conjunct1, rule_format])
       (simp_all add: shellCmdTemplateTable_def)
  show ?thesis using h ping bogus upper twice by simp
qed

subsection \<open>The tokenizer\<close>






















subsection \<open>The parser on a line of the grammar\<close>








subsection \<open>The pipeline\<close>



text \<open>
  Claim C4. When the runner of the matched command reports failure, a function-error
  response should be sent to the output channel. None is: with a table whose command
  \<open>fail\<close> has a runner that returns \<open>SHELL_ERR\<close>, the line \<open>fail\<close> runs that runner
  (index 0), sends nothing and the status is \<open>SHELL_OK\<close>; and \<open>shellSendResponse\<close>
  sends nothing for \<open>RESPONSE_FNC_ERR\<close>.
\<close>

theorem failing_runner_emits_nothing:
  "checkShellStatus failTable 0 (received ''fail'') world0 =
     Inr (Some SHELL_OK, (received ''fail'')\<lparr>rxFlag := False\<rparr>, \<lparr>sink = [], invoked = [0]\<rparr>) \<and>
   runner (failTable ! 0) parserOutput0 [] = (SHELL_ERR, []) \<and>
   shellSendResponse RESPONSE_FNC_ERR world0 = (SHELL_OK, world0)"
  by code_simp

text \<open>
  Claim C10. Every call of \<open>checkShellStatus\<close> should return a determinate status. With
  the flag clear it returns its local \<open>status\<close>, which was never assigned; the buffer
  and the world are unchanged.
\<close>

theorem checkShellStatus_idle_status_unassigned:
  "checkShellStatus tbl c0 (s\<lparr>rxFlag := False\<rparr>) w = Inr (None, s\<lparr>rxFlag := False\<rparr>, w)"
  by (simp add: checkShellStatus_def)

end
